theory Spec2Isabelle
  imports Main "HOL-Library.Word" "HOL-Library.AList"
begin

section \<open>Data model of package slog\<close>

text \<open>
  \<^verbatim>\<open>type LogLevel int8\<close>; the constants \<^verbatim>\<open>LevelDebug = -1\<close> ... \<^verbatim>\<open>LevelFatal = 5\<close>.
  \<^verbatim>\<open>type AlertLevel int\<close> is only stored and converted with \<^verbatim>\<open>int(alertLevel)\<close>, no
  arithmetic is done on it, so it is an \<open>int\<close>.
\<close>

type_synonym LogLevel = "8 word"
type_synonym AlertLevel = int
type_synonym int64 = "64 word"

text \<open>\<^verbatim>\<open>float64\<close> values are only stored: they are kept as their 64-bit pattern.\<close>

type_synonym float64 = "64 word"

definition LevelDebug :: LogLevel where "LevelDebug = - 1"
definition LevelInfo :: LogLevel where "LevelInfo = 0"
definition LevelWarn :: LogLevel where "LevelWarn = 1"
definition LevelError :: LogLevel where "LevelError = 2"
definition LevelPanic :: LogLevel where "LevelPanic = 4"
definition LevelFatal :: LogLevel where "LevelFatal = 5"

text \<open>
  The alert levels are not constants: \<^verbatim>\<open>var ( LevelNone AlertLevel = 0; LevelAlert
  AlertLevel = 1 )\<close> declares two exported package variables, which any importing package
  may assign. They are the state \<open>pkgvars\<close>; \<open>initVars\<close> is the state as declared.
  Every emission method reads \<^verbatim>\<open>LevelNone\<close> when it is called, so it takes the state
  as its first argument. (The third package variable, \<^verbatim>\<open>sukiLogger\<close>, is read and
  written by \<^verbatim>\<open>L\<close> only and is passed to it on its own.)
\<close>

record pkgvars =
  LevelNone :: AlertLevel
  LevelAlert :: AlertLevel

definition initVars :: pkgvars where
  "initVars = \<lparr>LevelNone = 0, LevelAlert = 1\<rparr>"

text \<open>A Go \<^verbatim>\<open>error\<close> value, as far as this package reads it: the text of \<^verbatim>\<open>Error()\<close>.\<close>

datatype error = GoError string

text \<open>
  \<^verbatim>\<open>time.Time\<close> is only stored (\<^verbatim>\<open>KafkaMessage.Timestamp\<close>); its three words are kept
  (\<^verbatim>\<open>wall uint64\<close>, \<^verbatim>\<open>ext int64\<close>, \<^verbatim>\<open>loc *Location\<close> as an optional address).
\<close>

datatype Time = Time (wall: "64 word") (ext: "64 word") (loc: "nat option")

text \<open>
  A Go \<^verbatim>\<open>map[string]T\<close> is an association list with distinct keys, written with
  \<open>AList.update\<close> and read with \<open>map_of\<close>; \<open>len\<close> is its length. Where the source
  tells a nil map from an empty one (the header, parameter and query maps), the map is
  optional: \<open>None\<close> is nil, \<open>Some []\<close> is \<^verbatim>\<open>map[string]string{}\<close>.
\<close>

type_synonym strmap = "(string \<times> string) list option"

record Config =
  LogLevel :: LogLevel
  AppName :: string
  Version :: string
  MaxBodySize :: int

record LogOption =
  Alert :: AlertLevel

record TraceInfo =
  TraceID :: string
  SpanID :: string
  RequestID :: string

record ErrorInfo =
  Name :: string
  StackTrace :: string

text \<open>
  Field names are global in a theory, so the fields that two structs share are told apart:
  \<^verbatim>\<open>HTTPResponseInfo.Duration/Body/Error\<close> are \<open>RespDuration\<close>, \<open>RespBody\<close>,
  \<open>RespError\<close>, and \<^verbatim>\<open>KafkaMessage.Headers\<close> is \<open>KafkaHeaders\<close>.
\<close>

record HTTPRequestInfo =
  Method :: string
  Path :: string
  RemoteIP :: string
  Headers :: strmap
  Params :: strmap
  Query :: strmap
  Body :: string

record HTTPResponseInfo =
  Status :: int64
  RespDuration :: float64
  RespBody :: string
  RespError :: ErrorInfo

record KafkaMessage =
  Topic :: string
  Partition :: int64
  Offset :: int64
  KafkaHeaders :: strmap
  Key :: string
  Payload :: string
  Timestamp :: Time

record KafkaResult =
  Duration :: float64
  Error :: ErrorInfo

type_synonym EventAction = string
type_synonym EventResult = string

definition ActionCreate :: EventAction where "ActionCreate = ''create''"
definition ActionUpdate :: EventAction where "ActionUpdate = ''update''"
definition ActionDelete :: EventAction where "ActionDelete = ''delete''"
definition ResultSuccess :: EventResult where "ResultSuccess = ''success''"
definition ResultCompensate :: EventResult where "ResultCompensate = ''compensate''"

record EventLog =
  Entity :: string
  Action :: EventAction
  Result :: EventResult
  ReferenceID :: string
  Data :: string

text \<open>
  A value of type \<^verbatim>\<open>interface{}\<close>, by its dynamic type. The package tells apart nil,
  \<^verbatim>\<open>string\<close>, values that implement \<^verbatim>\<open>error\<close>, and its own \<^verbatim>\<open>TraceInfo\<close>,
  \<^verbatim>\<open>LogOption\<close> and \<^verbatim>\<open>LogField\<close>; it stores its own structs and
  \<^verbatim>\<open>map[string]interface{}\<close> in the record. \<^verbatim>\<open>LogField{Key, Value}\<close> holds an
  \<^verbatim>\<open>interface{}\<close> itself, so it is a constructor here. Every other dynamic type
  (numbers, pointers, foreign structs) is \<open>IOther\<close> with an opaque tag.
\<close>

datatype iface =
    INil
  | IString string
  | IError error
  | ITraceInfo TraceInfo
  | ILogOption LogOption
  | ILogField string iface
  | IHTTPRequestInfo HTTPRequestInfo
  | IHTTPResponseInfo HTTPResponseInfo
  | IKafkaMessage KafkaMessage
  | IKafkaResult KafkaResult
  | IEventLog EventLog
  | IMap "(string \<times> iface) list"
  | IOther nat

section \<open>Field primitives and payload builders\<close>

definition Any :: "string \<Rightarrow> iface \<Rightarrow> iface" where
  "Any key val = ILogField key val"

text \<open>\<^verbatim>\<open>func Error(err error) LogField\<close>; \<open>None\<close> is the nil error.\<close>

definition Error_field :: "error option \<Rightarrow> iface" where
  "Error_field err =
     (case err of
        Some (GoError m) \<Rightarrow> Any ''error'' (IString m)
      | None \<Rightarrow> Any ''error'' (IString ''''))"

definition WithTracing :: "string \<Rightarrow> string \<Rightarrow> string list \<Rightarrow> TraceInfo" where
  "WithTracing traceID spanID requestID =
     (let reqID = (if length requestID > 0 then requestID ! 0 else '''')
      in \<lparr>TraceID = traceID, SpanID = spanID, RequestID = reqID\<rparr>)"

definition WithOption :: "LogOption \<Rightarrow> LogOption" where
  "WithOption opts = opts"

text \<open>
  \<^verbatim>\<open>json.Marshal\<close> belongs to the standard library: it is the parameter \<open>marshal\<close>,
  which returns the encoded text or an error.
\<close>

definition WithEvent ::
  "(iface \<Rightarrow> error + string) \<Rightarrow> string \<Rightarrow> EventAction \<Rightarrow> EventResult \<Rightarrow> iface \<Rightarrow> string \<Rightarrow> EventLog"
where
  "WithEvent marshal entity action result data' refID =
     (let payload =
        (case data' of
           INil \<Rightarrow> ''''
         | IString str \<Rightarrow> str
         | _ \<Rightarrow> (case marshal data' of Inr r \<Rightarrow> r | Inl err \<Rightarrow> ''''))
      in \<lparr>Entity = entity, Action = action, Result = result,
          ReferenceID = refID, Data = payload\<rparr>)"

definition WithHTTPRequest ::
  "string \<Rightarrow> string \<Rightarrow> string \<Rightarrow> strmap \<Rightarrow> strmap \<Rightarrow> strmap \<Rightarrow> string \<Rightarrow> HTTPRequestInfo"
where
  "WithHTTPRequest method' path' remoteIP headers params query body =
     (let h = (if headers = None then Some [] else headers);
          p = (if params = None then Some [] else params);
          q = (if query = None then Some [] else query)
      in \<lparr>Method = method', Path = path', RemoteIP = remoteIP,
          Headers = h, Params = p, Query = q, Body = body\<rparr>)"

definition WithError :: "string \<Rightarrow> string list \<Rightarrow> ErrorInfo" where
  "WithError name stacktrace =
     (let trace =
        (if length stacktrace = 1 then stacktrace ! 0
         else if length stacktrace > 1 then stacktrace ! 1
         else '''')
      in \<lparr>Name = name, StackTrace = trace\<rparr>)"

definition WithHTTPResponse ::
  "int64 \<Rightarrow> float64 \<Rightarrow> string \<Rightarrow> ErrorInfo list \<Rightarrow> HTTPResponseInfo"
where
  "WithHTTPResponse status duration body err =
     (let e = (if length err > 0 then err ! 0 else \<lparr>Name = '''', StackTrace = ''''\<rparr>)
      in \<lparr>Status = status, RespDuration = duration, RespBody = body, RespError = e\<rparr>)"

definition WithKafkaMessage ::
  "string \<Rightarrow> int64 \<Rightarrow> int64 \<Rightarrow> strmap \<Rightarrow> string \<Rightarrow> string \<Rightarrow> Time \<Rightarrow> KafkaMessage"
where
  "WithKafkaMessage topic partition' offset headers key payload timestamp =
     (let h = (if headers = None then Some [] else headers)
      in \<lparr>Topic = topic, Partition = partition', Offset = offset, KafkaHeaders = h,
          Key = key, Payload = payload, Timestamp = timestamp\<rparr>)"

definition WithKafkaResult :: "float64 \<Rightarrow> ErrorInfo list \<Rightarrow> KafkaResult" where
  "WithKafkaResult duration err =
     (let e = (if length err > 0 then err ! 0 else \<lparr>Name = '''', StackTrace = ''''\<rparr>)
      in \<lparr>Duration = duration, Error = e\<rparr>)"

section \<open>The backend sink, as this package drives it\<close>

text \<open>
  \<^verbatim>\<open>*zap.Logger\<close> is a handle (an address); nil is \<open>None\<close>. A call of one of its
  leveled methods is recorded as the value \<open>zapCall\<close>: the receiver, the method, the
  message and the fields in the order they are passed. What the backend does with the call
  (level filtering, encoding, the abort of Panic and Fatal) is outside this package.
\<close>

type_synonym zapLogger = nat

datatype zapLevel = DebugLevel | InfoLevel | WarnLevel | ErrorLevel | PanicLevel | FatalLevel

datatype zapValue = StringType string | Int64Type int | ReflectType iface

datatype zapField = Field (FieldKey: string) (FieldValue: zapValue)

definition zap_String :: "string \<Rightarrow> string \<Rightarrow> zapField" where
  "zap_String key val = Field key (StringType val)"

definition zap_Int :: "string \<Rightarrow> int \<Rightarrow> zapField" where
  "zap_Int key val = Field key (Int64Type val)"

definition zap_Any :: "string \<Rightarrow> iface \<Rightarrow> zapField" where
  "zap_Any key val = Field key (ReflectType val)"

record zapCall =
  receiver :: "zapLogger option"
  level :: zapLevel
  message :: string
  callFields :: "zapField list"

record SukiLogger =
  config :: Config
  zapInstance :: "zapLogger option"

text \<open>Reading an emitted record: a top-level field, and an entry of its "data" object.\<close>

definition field :: "zapCall \<Rightarrow> string \<Rightarrow> zapValue option" where
  "field c k = map_of (map (\<lambda>f. (FieldKey f, FieldValue f)) (callFields c)) k"

definition payload :: "zapCall \<Rightarrow> string \<Rightarrow> iface option" where
  "payload c k =
     (case field c ''data'' of
        Some (ReflectType (IMap d)) \<Rightarrow> map_of d k
      | _ \<Rightarrow> None)"

section \<open>Specialised emission methods\<close>

text \<open>
  The loop \<^verbatim>\<open>for i, _ := range args\<close> of \<^verbatim>\<open>RequestKafka\<close>, \<^verbatim>\<open>RequestHTTP\<close> and
  \<^verbatim>\<open>Event\<close> (the same text in all three), over the state \<open>(data, alertLevel)\<close>.
\<close>

fun requestArgs ::
  "iface list \<Rightarrow> (string \<times> iface) list \<times> AlertLevel \<Rightarrow> (string \<times> iface) list \<times> AlertLevel"
where
  "requestArgs [] st = st"
| "requestArgs (a # args) (data', alertLevel) =
     requestArgs args
       (case a of
          ITraceInfo tracing \<Rightarrow>
            (AList.update ''tracing''
               (ITraceInfo \<lparr>TraceID = TraceID tracing, SpanID = SpanID tracing, RequestID = ''''\<rparr>)
               data',
             alertLevel)
        | ILogOption opts \<Rightarrow> (data', Alert opts)
        | _ \<Rightarrow> (data', alertLevel))"

definition RequestKafka ::
  "pkgvars \<Rightarrow> SukiLogger \<Rightarrow> string \<Rightarrow> KafkaMessage \<Rightarrow> KafkaResult \<Rightarrow> iface list \<Rightarrow> zapCall"
where
  "RequestKafka g s msg kafkaMessage kafkaResult args =
     (let appName = zap_String ''app_name'' (AppName (config s));
          version = zap_String ''version'' (Version (config s));
          logType = zap_String ''log_type'' ''handler.kafka'';
          (data0, alertLevel) = requestArgs args ([], LevelNone g);
          data1 = AList.update ''kafka_message'' (IKafkaMessage kafkaMessage) data0;
          data2 = AList.update ''kafka_result'' (IKafkaResult kafkaResult) data1;
          dataField = zap_Any ''data'' (IMap data2)
      in \<lparr>receiver = zapInstance s, level = InfoLevel, message = msg,
          callFields = [appName, version, logType, zap_Int ''alert'' alertLevel, dataField]\<rparr>)"

definition RequestHTTP ::
  "pkgvars \<Rightarrow> SukiLogger \<Rightarrow> string \<Rightarrow> HTTPRequestInfo \<Rightarrow> HTTPResponseInfo \<Rightarrow> iface list \<Rightarrow> zapCall"
where
  "RequestHTTP g s msg request response args =
     (let appName = zap_String ''app_name'' (AppName (config s));
          version = zap_String ''version'' (Version (config s));
          logType = zap_String ''log_type'' ''handler.http'';
          (data0, alertLevel) = requestArgs args ([], LevelNone g);
          request1 =
            (if MaxBodySize (config s) > 0 \<and> int (length (Body request)) > MaxBodySize (config s)
             then request\<lparr>Body := ''body is too large''\<rparr> else request);
          response1 =
            (if MaxBodySize (config s) > 0 \<and> int (length (RespBody response)) > MaxBodySize (config s)
             then response\<lparr>RespBody := ''body is too large''\<rparr> else response);
          data1 = AList.update ''http_request'' (IHTTPRequestInfo request1) data0;
          data2 = AList.update ''http_response'' (IHTTPResponseInfo response1) data1;
          dataField = zap_Any ''data'' (IMap data2)
      in \<lparr>receiver = zapInstance s, level = InfoLevel, message = msg,
          callFields = [appName, version, logType, zap_Int ''alert'' alertLevel, dataField]\<rparr>)"

definition Event ::
  "pkgvars \<Rightarrow> SukiLogger \<Rightarrow> string \<Rightarrow> EventLog \<Rightarrow> iface list \<Rightarrow> zapCall"
where
  "Event g s msg event args =
     (let appName = zap_String ''app_name'' (AppName (config s));
          version = zap_String ''version'' (Version (config s));
          logType = zap_String ''log_type'' ''event'';
          (data0, alertLevel) = requestArgs args ([], LevelNone g);
          data1 = AList.update ''event'' (IEventLog event) data0;
          dataField = zap_Any ''data'' (IMap data1)
      in \<lparr>receiver = zapInstance s, level = InfoLevel, message = msg,
          callFields = [appName, version, logType, zap_Int ''alert'' alertLevel, dataField]\<rparr>)"

section \<open>Leveled emission methods\<close>

text \<open>
  The loop of \<^verbatim>\<open>appLogBuilder\<close>, over the state \<open>(data, appData, alertLevel)\<close>. A
  \<^verbatim>\<open>TraceInfo\<close> is stored as it came; a \<^verbatim>\<open>LogField\<close> whose value implements
  \<^verbatim>\<open>error\<close> is stored as the text of \<^verbatim>\<open>Error()\<close>.
\<close>

fun appLogArgs ::
  "iface list \<Rightarrow> (string \<times> iface) list \<times> (string \<times> iface) list \<times> AlertLevel
     \<Rightarrow> (string \<times> iface) list \<times> (string \<times> iface) list \<times> AlertLevel"
where
  "appLogArgs [] st = st"
| "appLogArgs (a # args) (data', appData, alertLevel) =
     appLogArgs args
       (case a of
          ITraceInfo fld \<Rightarrow> (AList.update ''tracing'' (ITraceInfo fld) data', appData, alertLevel)
        | ILogField k v \<Rightarrow>
            (case v of
               IError (GoError m) \<Rightarrow> (data', AList.update k (IString m) appData, alertLevel)
             | _ \<Rightarrow> (data', AList.update k v appData, alertLevel))
        | ILogOption opts \<Rightarrow> (data', appData, Alert opts)
        | _ \<Rightarrow> (data', appData, alertLevel))"

definition appLogBuilder :: "pkgvars \<Rightarrow> SukiLogger \<Rightarrow> iface list \<Rightarrow> zapField list" where
  "appLogBuilder g s args =
     (let appName = zap_String ''app_name'' (AppName (config s));
          version = zap_String ''version'' (Version (config s));
          logType = zap_String ''log_type'' ''application'';
          appKey = (if length (AppName (config s)) \<le> 0 then ''payload'' else AppName (config s));
          (data0, appData, alertLevel) = appLogArgs args ([], [], LevelNone g);
          data1 = (if length appData > 0 then AList.update appKey (IMap appData) data0 else data0);
          dataField = zap_Any ''data'' (IMap data1)
      in [appName, version, logType, zap_Int ''alert'' alertLevel, dataField])"

definition Info :: "pkgvars \<Rightarrow> SukiLogger \<Rightarrow> string \<Rightarrow> iface list \<Rightarrow> zapCall" where
  "Info g s msg args =
     \<lparr>receiver = zapInstance s, level = InfoLevel, message = msg,
      callFields = appLogBuilder g s args\<rparr>"

definition Debug :: "pkgvars \<Rightarrow> SukiLogger \<Rightarrow> string \<Rightarrow> iface list \<Rightarrow> zapCall" where
  "Debug g s msg args =
     \<lparr>receiver = zapInstance s, level = DebugLevel, message = msg,
      callFields = appLogBuilder g s args\<rparr>"

text \<open>The method \<^verbatim>\<open>(s SukiLogger) Error\<close>.\<close>

definition Error_log :: "pkgvars \<Rightarrow> SukiLogger \<Rightarrow> string \<Rightarrow> iface list \<Rightarrow> zapCall" where
  "Error_log g s msg args =
     \<lparr>receiver = zapInstance s, level = ErrorLevel, message = msg,
      callFields = appLogBuilder g s args\<rparr>"

definition Warn :: "pkgvars \<Rightarrow> SukiLogger \<Rightarrow> string \<Rightarrow> iface list \<Rightarrow> zapCall" where
  "Warn g s msg args =
     \<lparr>receiver = zapInstance s, level = WarnLevel, message = msg,
      callFields = appLogBuilder g s args\<rparr>"

definition Panic :: "pkgvars \<Rightarrow> SukiLogger \<Rightarrow> string \<Rightarrow> iface list \<Rightarrow> zapCall" where
  "Panic g s msg args =
     \<lparr>receiver = zapInstance s, level = PanicLevel, message = msg,
      callFields = appLogBuilder g s args\<rparr>"

definition Fatal :: "pkgvars \<Rightarrow> SukiLogger \<Rightarrow> string \<Rightarrow> iface list \<Rightarrow> zapCall" where
  "Fatal g s msg args =
     \<lparr>receiver = zapInstance s, level = FatalLevel, message = msg,
      callFields = appLogBuilder g s args\<rparr>"

section \<open>Configuration and the default instance\<close>

text \<open>
  The fields of \<^verbatim>\<open>zap.Config\<close> that the package sets. \<^verbatim>\<open>config.Build\<close> belongs to
  zap: it is the parameter \<open>build\<close>, given the configuration and the caller skip, which
  returns a new logger or an error (and then a nil logger, as zap does).
\<close>

datatype LevelEncoder = LowercaseLevelEncoder | OtherLevelEncoder
datatype TimeEncoder = ISO8601TimeEncoder | OtherTimeEncoder

record zapConfig =
  EncodeLevel :: LevelEncoder
  MessageKey :: string
  TimeKey :: string
  EncodeTime :: TimeEncoder
  Level :: "8 word"

definition sinkConfig :: "8 word \<Rightarrow> zapConfig" where
  "sinkConfig lvl =
     \<lparr>EncodeLevel = LowercaseLevelEncoder, MessageKey = ''message'', TimeKey = ''timestamp'',
      EncodeTime = ISO8601TimeEncoder, Level = lvl\<rparr>"

text \<open>
  \<^verbatim>\<open>Configure\<close> has a pointer receiver: it returns the error (\<open>None\<close> is nil), the
  logger as it is afterwards, and the loggers on which \<^verbatim>\<open>Sync\<close> was called, in order.
  \<^verbatim>\<open>defer logger.Sync()\<close> is registered after the error check, on the logger just built,
  and runs when the function returns.
\<close>

definition Configure ::
  "(zapConfig \<Rightarrow> nat \<Rightarrow> error + zapLogger) \<Rightarrow> SukiLogger \<Rightarrow> Config
     \<Rightarrow> error option \<times> SukiLogger \<times> zapLogger list"
where
  "Configure build s c =
     (case build (sinkConfig (LogLevel c)) 1 of
        Inl err \<Rightarrow> (Some err, s, [])
      | Inr logger \<Rightarrow> (None, s\<lparr>zapInstance := Some logger, config := c\<rparr>, [logger]))"

text \<open>
  \<^verbatim>\<open>L\<close> reads and writes the package variable \<^verbatim>\<open>sukiLogger\<close> (\<open>None\<close> is nil). It
  returns the variable afterwards and the logger that the returned pointer points to.
  \<^verbatim>\<open>zapcore.FatalLevel\<close> is 5.
\<close>

definition L ::
  "(zapConfig \<Rightarrow> nat \<Rightarrow> error + zapLogger) \<Rightarrow> SukiLogger option
     \<Rightarrow> SukiLogger option \<times> SukiLogger"
where
  "L build sukiLogger =
     (case sukiLogger of
        None \<Rightarrow>
          (let logger = (case build (sinkConfig 5) 1 of Inr l \<Rightarrow> Some l | Inl err \<Rightarrow> None);
               new = \<lparr>config = \<lparr>LogLevel = 0, AppName = '''', Version = '''', MaxBodySize = 0\<rparr>,
                      zapInstance = logger\<rparr>
           in (Some new, new))
      | Some s \<Rightarrow> (Some s, s))"

definition NewProductionConfig :: Config where
  "NewProductionConfig =
     \<lparr>LogLevel = LevelInfo, AppName = ''application'', Version = ''1.0.0'',
      MaxBodySize = 1048576\<rparr>"

section \<open>Overlapping calls of L\<close>

text \<open>
  \<^verbatim>\<open>L\<close> takes no lock and uses no \<^verbatim>\<open>sync.Once\<close>, so two goroutines that call it run
  its statements interleaved. One call takes four steps: the test \<^verbatim>\<open>sukiLogger == nil\<close>,
  the build, the store \<^verbatim>\<open>sukiLogger = &SukiLogger{zapInstance: logger}\<close> and the return
  of the variable. The shared state holds the package variable as an address (\<open>None\<close> is
  nil), the \<^verbatim>\<open>SukiLogger\<close> objects allocated so far (an address is an index in that
  list) and the number of calls of \<^verbatim>\<open>config.Build\<close>; \<open>build n\<close> is what the library
  answers to its call number \<open>n\<close>. A schedule says which goroutine takes the next step.
\<close>

datatype L_pc = AtTest | AtBuild | AtStore "zapLogger option" | AtReturn | Returned "nat option"

record L_shared =
  sukiLogger :: "nat option"
  objects :: "SukiLogger list"
  builds :: nat

fun L_step ::
  "(nat \<Rightarrow> zapConfig \<Rightarrow> nat \<Rightarrow> error + zapLogger) \<Rightarrow> L_shared \<Rightarrow> L_pc \<Rightarrow> L_shared \<times> L_pc"
where
  "L_step build sh AtTest = (sh, if sukiLogger sh = None then AtBuild else AtReturn)"
| "L_step build sh AtBuild =
     (sh\<lparr>builds := builds sh + 1\<rparr>,
      AtStore (case build (builds sh) (sinkConfig 5) 1 of Inr l \<Rightarrow> Some l | Inl err \<Rightarrow> None))"
| "L_step build sh (AtStore logger) =
     (sh\<lparr>sukiLogger := Some (length (objects sh)),
         objects := objects sh @
           [\<lparr>config = \<lparr>LogLevel = 0, AppName = '''', Version = '''', MaxBodySize = 0\<rparr>,
             zapInstance = logger\<rparr>]\<rparr>,
      AtReturn)"
| "L_step build sh AtReturn = (sh, Returned (sukiLogger sh))"
| "L_step build sh (Returned r) = (sh, Returned r)"

datatype goroutine = GoA | GoB

fun L_run ::
  "(nat \<Rightarrow> zapConfig \<Rightarrow> nat \<Rightarrow> error + zapLogger) \<Rightarrow> goroutine list
     \<Rightarrow> L_shared \<times> L_pc \<times> L_pc \<Rightarrow> L_shared \<times> L_pc \<times> L_pc"
where
  "L_run build [] st = st"
| "L_run build (GoA # sched) (sh, a, b) =
     (case L_step build sh a of (sh', a') \<Rightarrow> L_run build sched (sh', a', b))"
| "L_run build (GoB # sched) (sh, a, b) =
     (case L_step build sh b of (sh', b') \<Rightarrow> L_run build sched (sh', a, b'))"

text \<open>Two first calls: the variable is nil, nothing is allocated or built yet.\<close>

definition L_first :: "L_shared \<times> L_pc \<times> L_pc" where
  "L_first = (\<lparr>sukiLogger = None, objects = [], builds = 0\<rparr>, AtTest, AtTest)"

text \<open>A library in which every build succeeds, with a logger of its own.\<close>

definition freshBuild :: "nat \<Rightarrow> zapConfig \<Rightarrow> nat \<Rightarrow> error + zapLogger" where
  "freshBuild n cfg skip = Inr n"

section \<open>Reading an argument list\<close>

text \<open>
  The \<^verbatim>\<open>LogOption\<close> and \<^verbatim>\<open>TraceInfo\<close> values of a variadic argument list, in call-site
  order, and the alert level that the last \<^verbatim>\<open>LogOption\<close> asks for (the level \<open>none\<close>
  when there is none).
\<close>

definition LogOptions :: "iface list \<Rightarrow> LogOption list" where
  "LogOptions args = [opt. ILogOption opt \<leftarrow> args]"

definition TraceInfos :: "iface list \<Rightarrow> TraceInfo list" where
  "TraceInfos args = [t. ITraceInfo t \<leftarrow> args]"

definition lastAlert :: "AlertLevel \<Rightarrow> iface list \<Rightarrow> AlertLevel" where
  "lastAlert none args = (if LogOptions args = [] then none else Alert (last (LogOptions args)))"

text \<open>
  An instance of the encoder parameter of \<open>WithEvent\<close>: it fails on the opaque values and
  encodes every other value as an empty object.
\<close>

definition sampleMarshal :: "iface \<Rightarrow> error + string" where
  "sampleMarshal d =
     (case d of IOther n \<Rightarrow> Inl (GoError ''json: unsupported type'') | _ \<Rightarrow> Inr ''{}'')"

section \<open>Payload builders\<close>

text \<open>
  C3. \<^verbatim>\<open>WithError(name, stacktrace...)\<close>: the name is kept; with no variadic value the stack
  trace is empty, with exactly one it is that value, with two or more it is the second one
  (index 1) and the first is dropped.
\<close>

theorem WithError_stack_trace:
  "Name (WithError name stacktrace) = name \<and>
   StackTrace (WithError name []) = '''' \<and>
   StackTrace (WithError name [a]) = a \<and>
   StackTrace (WithError name (a # b # rest)) = b"
  by (simp add: WithError_def)

text \<open>
  C9. \<^verbatim>\<open>WithHTTPRequest\<close> (headers, params, query) and \<^verbatim>\<open>WithKafkaMessage\<close> (headers):
  a nil map becomes the empty, non-nil map; a non-nil map is kept as it is.
\<close>

theorem nil_maps_become_empty:
  "Headers (WithHTTPRequest m p ip None params query body) = Some [] \<and>
   Headers (WithHTTPRequest m p ip (Some hm) params query body) = Some hm \<and>
   Params (WithHTTPRequest m p ip headers None query body) = Some [] \<and>
   Params (WithHTTPRequest m p ip headers (Some pm) query body) = Some pm \<and>
   Query (WithHTTPRequest m p ip headers params None body) = Some [] \<and>
   Query (WithHTTPRequest m p ip headers params (Some qm) body) = Some qm \<and>
   KafkaHeaders (WithKafkaMessage topic part off None key pl ts) = Some [] \<and>
   KafkaHeaders (WithKafkaMessage topic part off (Some km) key pl ts) = Some km"
  by (simp add: WithHTTPRequest_def WithKafkaMessage_def)

text \<open>
  C7. \<^verbatim>\<open>WithEvent\<close>: nil data gives the empty string; a string is taken as it is; any other
  value gives its encoding when the encoder succeeds and the empty string when it fails.
  The function has no error result: it returns an \<open>EventLog\<close> on every input.
\<close>

theorem WithEvent_data:
  "Data (WithEvent marshal entity action result INil refID) = '''' \<and>
   Data (WithEvent marshal entity action result (IString str) refID) = str \<and>
   (d \<noteq> INil \<and> (\<forall>s. d \<noteq> IString s) \<longrightarrow>
      (\<forall>json. marshal d = Inr json \<longrightarrow>
         Data (WithEvent marshal entity action result d refID) = json) \<and>
      (\<forall>err. marshal d = Inl err \<longrightarrow>
         Data (WithEvent marshal entity action result d refID) = ''''))"
  by (cases d) (simp_all add: WithEvent_def)

theorem WithEvent_data_witness:
  "IMap [] \<noteq> INil \<and> (\<forall>s. IMap [] \<noteq> IString s) \<and> sampleMarshal (IMap []) = Inr ''{}'' \<and>
   Data (WithEvent sampleMarshal ''order'' ActionCreate ResultSuccess (IMap []) ''ref-1'') = ''{}'' \<and>
   IOther 0 \<noteq> INil \<and> (\<forall>s. IOther 0 \<noteq> IString s) \<and>
   sampleMarshal (IOther 0) = Inl (GoError ''json: unsupported type'') \<and>
   Data (WithEvent sampleMarshal ''order'' ActionCreate ResultSuccess (IOther 0) ''ref-1'') = ''''"
  using WithEvent_data [of sampleMarshal "''order''" ActionCreate ResultSuccess "''ref-1''" _ "IMap []"]
    WithEvent_data [of sampleMarshal "''order''" ActionCreate ResultSuccess "''ref-1''" _ "IOther 0"]
  by (simp add: sampleMarshal_def)

section \<open>The argument scan\<close>

lemma LogOptions_Nil: "LogOptions [] = []"
  by (simp add: LogOptions_def)

lemma LogOptions_Cons:
  "LogOptions (a # args) =
     (case a of ILogOption opt \<Rightarrow> opt # LogOptions args | _ \<Rightarrow> LogOptions args)"
  by (cases a) (simp_all add: LogOptions_def)

lemma TraceInfos_Nil: "TraceInfos [] = []"
  by (simp add: TraceInfos_def)

lemma TraceInfos_Cons:
  "TraceInfos (a # args) =
     (case a of ITraceInfo t \<Rightarrow> t # TraceInfos args | _ \<Rightarrow> TraceInfos args)"
  by (cases a) (simp_all add: TraceInfos_def)

lemma requestArgs_alert:
  "snd (requestArgs args (d, al)) =
     (if LogOptions args = [] then al else Alert (last (LogOptions args)))"
proof (induction args arbitrary: d al)
  case Nil
  show ?case by (simp add: LogOptions_Nil)
next
  case (Cons a args)
  show ?case
    by (cases a) (simp_all add: Cons.IH LogOptions_Cons)
qed

lemma appLogArgs_alert:
  "snd (snd (appLogArgs args (d, ad, al))) =
     (if LogOptions args = [] then al else Alert (last (LogOptions args)))"
proof (induction args arbitrary: d ad al)
  case Nil
  show ?case by (simp add: LogOptions_Nil)
next
  case (Cons a args)
  show ?case
  proof (cases a)
    case (ILogField k v)
    then show ?thesis
      by (cases v) (simp_all add: Cons.IH LogOptions_Cons split: error.splits)
  qed (simp_all add: Cons.IH LogOptions_Cons)
qed

lemma requestArgs_tracing:
  "map_of (fst (requestArgs args (d, al))) ''tracing'' =
     (if TraceInfos args = [] then map_of d ''tracing''
      else Some (ITraceInfo ((last (TraceInfos args))\<lparr>RequestID := ''''\<rparr>)))"
proof (induction args arbitrary: d al)
  case Nil
  show ?case by (simp add: TraceInfos_Nil)
next
  case (Cons a args)
  show ?case
    by (cases a) (simp_all add: Cons.IH TraceInfos_Cons update_conv')
qed

lemma appLogArgs_tracing:
  "map_of (fst (appLogArgs args (d, ad, al))) ''tracing'' =
     (if TraceInfos args = [] then map_of d ''tracing''
      else Some (ITraceInfo (last (TraceInfos args))))"
proof (induction args arbitrary: d ad al)
  case Nil
  show ?case by (simp add: TraceInfos_Nil)
next
  case (Cons a args)
  show ?case
  proof (cases a)
    case (ILogField k v)
    then show ?thesis
      by (cases v) (simp_all add: Cons.IH TraceInfos_Cons split: error.splits)
  qed (simp_all add: Cons.IH TraceInfos_Cons update_conv')
qed

lemma field_alert_appLogBuilder:
  "map_of (map (\<lambda>f. (FieldKey f, FieldValue f)) (appLogBuilder g s args)) ''alert''
     = Some (Int64Type (lastAlert (LevelNone g) args))"
  using appLogArgs_alert [of args "[]" "[]" "LevelNone g"]
  by (simp add: appLogBuilder_def lastAlert_def zap_String_def zap_Int_def zap_Any_def
      Let_def case_prod_beta)

section \<open>Emitted records\<close>

text \<open>
  C5, as stated, says that the "alert" field is 0 when the argument list holds no
  \<^verbatim>\<open>LogOption\<close>. The code starts every scan from the package variable \<^verbatim>\<open>LevelNone\<close>, so
  after \<^verbatim>\<open>LevelNone = 7\<close> a call without a \<^verbatim>\<open>LogOption\<close> emits 7.
\<close>

theorem alert_follows_LevelNone_variable:
  "LogOptions [] = [] \<and>
   field (Info \<lparr>LevelNone = 7, LevelAlert = 1\<rparr>
            \<lparr>config = NewProductionConfig, zapInstance = Some 1\<rparr> ''msg'' []) ''alert''
     = Some (Int64Type 7) \<and>
   field (Info \<lparr>LevelNone = 7, LevelAlert = 1\<rparr>
            \<lparr>config = NewProductionConfig, zapInstance = Some 1\<rparr> ''msg'' []) ''alert''
     \<noteq> Some (Int64Type 0)"
  by (simp add: LogOptions_def field_def Info_def appLogBuilder_def
      zap_String_def zap_Int_def zap_Any_def NewProductionConfig_def Let_def)

text \<open>
  C5, amended. In all nine emission methods the top-level "alert" field is the \<^verbatim>\<open>Alert\<close> of
  the last \<^verbatim>\<open>LogOption\<close> of the argument list; when the list holds none, it is the value
  that the package variable \<^verbatim>\<open>LevelNone\<close> has at the call, which is 0 as declared.
\<close>

theorem alert_last_LogOption:
  "field (Info g s msg args) ''alert'' = Some (Int64Type (lastAlert (LevelNone g) args)) \<and>
   field (Debug g s msg args) ''alert'' = Some (Int64Type (lastAlert (LevelNone g) args)) \<and>
   field (Warn g s msg args) ''alert'' = Some (Int64Type (lastAlert (LevelNone g) args)) \<and>
   field (Error_log g s msg args) ''alert'' = Some (Int64Type (lastAlert (LevelNone g) args)) \<and>
   field (Panic g s msg args) ''alert'' = Some (Int64Type (lastAlert (LevelNone g) args)) \<and>
   field (Fatal g s msg args) ''alert'' = Some (Int64Type (lastAlert (LevelNone g) args)) \<and>
   field (RequestHTTP g s msg request response args) ''alert''
     = Some (Int64Type (lastAlert (LevelNone g) args)) \<and>
   field (RequestKafka g s msg kafkaMessage kafkaResult args) ''alert''
     = Some (Int64Type (lastAlert (LevelNone g) args)) \<and>
   field (Event g s msg event args) ''alert'' = Some (Int64Type (lastAlert (LevelNone g) args)) \<and>
   LevelNone initVars = 0"
proof -
  have req: "snd (requestArgs args ([], LevelNone g)) = lastAlert (LevelNone g) args"
    by (simp add: requestArgs_alert lastAlert_def)
  have http: "field (RequestHTTP g s msg request response args) ''alert''
      = Some (Int64Type (lastAlert (LevelNone g) args))"
    using req
    by (simp add: field_def RequestHTTP_def zap_String_def zap_Int_def zap_Any_def
        Let_def case_prod_beta)
  have kafka: "field (RequestKafka g s msg kafkaMessage kafkaResult args) ''alert''
      = Some (Int64Type (lastAlert (LevelNone g) args))"
    using req
    by (simp add: field_def RequestKafka_def zap_String_def zap_Int_def zap_Any_def
        Let_def case_prod_beta)
  have event: "field (Event g s msg event args) ''alert''
      = Some (Int64Type (lastAlert (LevelNone g) args))"
    using req
    by (simp add: field_def Event_def zap_String_def zap_Int_def zap_Any_def
        Let_def case_prod_beta)
  show ?thesis
    using http kafka event
    by (simp add: field_def Info_def Debug_def Warn_def Error_log_def Panic_def Fatal_def
        field_alert_appLogBuilder initVars_def)
qed

text \<open>
  C8. \<^verbatim>\<open>RequestHTTP\<close>, \<^verbatim>\<open>RequestKafka\<close> and \<^verbatim>\<open>Event\<close> pass the log type "handler.http",
  "handler.kafka" and "event", and call the backend's Info method, whatever the logger, the
  payload and the arguments are.
\<close>

theorem fixed_log_type_at_Info:
  "field (RequestHTTP g s msg request response args) ''log_type''
     = Some (StringType ''handler.http'') \<and>
   level (RequestHTTP g s msg request response args) = InfoLevel \<and>
   field (RequestKafka g s msg kafkaMessage kafkaResult args) ''log_type''
     = Some (StringType ''handler.kafka'') \<and>
   level (RequestKafka g s msg kafkaMessage kafkaResult args) = InfoLevel \<and>
   field (Event g s msg event args) ''log_type'' = Some (StringType ''event'') \<and>
   level (Event g s msg event args) = InfoLevel"
  by (simp add: field_def RequestHTTP_def RequestKafka_def Event_def zap_String_def zap_Int_def
      zap_Any_def Let_def case_prod_beta)

text \<open>
  C6. \<^verbatim>\<open>RequestHTTP\<close> emits the request under "http_request" and the response under
  "http_response", each with its body replaced by "body is too large" exactly when
  \<^verbatim>\<open>MaxBodySize\<close> is positive and the length of that body exceeds it, each body judged on
  its own; otherwise (also when \<^verbatim>\<open>MaxBodySize\<close> is zero or negative) the body is unchanged.
\<close>

theorem body_truncation:
  "payload (RequestHTTP g s msg request response args) ''http_request'' =
     Some (IHTTPRequestInfo
       (request\<lparr>Body :=
          if 0 < MaxBodySize (config s) \<and> MaxBodySize (config s) < int (length (Body request))
          then ''body is too large'' else Body request\<rparr>)) \<and>
   payload (RequestHTTP g s msg request response args) ''http_response'' =
     Some (IHTTPResponseInfo
       (response\<lparr>RespBody :=
          if 0 < MaxBodySize (config s) \<and> MaxBodySize (config s) < int (length (RespBody response))
          then ''body is too large'' else RespBody response\<rparr>))"
  by (simp add: payload_def field_def RequestHTTP_def zap_String_def zap_Int_def
      zap_Any_def Let_def case_prod_beta update_conv')

text \<open>
  The "tracing" entry of the three specialised methods: the last \<^verbatim>\<open>TraceInfo\<close> of the
  argument list with its \<^verbatim>\<open>RequestID\<close> emptied.
\<close>

lemma specialised_tracing:
  "payload (RequestHTTP g s msg request response args) ''tracing'' =
     (if TraceInfos args = [] then None
      else Some (ITraceInfo ((last (TraceInfos args))\<lparr>RequestID := ''''\<rparr>)))"
  "payload (RequestKafka g s msg kafkaMessage kafkaResult args) ''tracing'' =
     (if TraceInfos args = [] then None
      else Some (ITraceInfo ((last (TraceInfos args))\<lparr>RequestID := ''''\<rparr>)))"
  "payload (Event g s msg event args) ''tracing'' =
     (if TraceInfos args = [] then None
      else Some (ITraceInfo ((last (TraceInfos args))\<lparr>RequestID := ''''\<rparr>)))"
  using requestArgs_tracing [of args "[]" "LevelNone g"]
  by (simp_all add: payload_def field_def RequestHTTP_def RequestKafka_def Event_def
      zap_String_def zap_Int_def zap_Any_def Let_def case_prod_beta update_conv')

text \<open>
  The "tracing" entry of the leveled methods, which all emit the fields of
  \<^verbatim>\<open>appLogBuilder\<close>: the last \<^verbatim>\<open>TraceInfo\<close> as it was passed (unless the application is
  itself named "tracing", when the field object may take the key).
\<close>

lemma appLogBuilder_tracing:
  assumes "AppName (config s) \<noteq> ''tracing''"
  shows "payload (Info g s msg args) ''tracing'' =
     (if TraceInfos args = [] then None else Some (ITraceInfo (last (TraceInfos args))))"
  using assms appLogArgs_tracing [of args "[]" "[]" "LevelNone g"]
  by (simp add: payload_def field_def Info_def appLogBuilder_def
      zap_String_def zap_Int_def zap_Any_def Let_def case_prod_beta update_conv')

text \<open>
  C1. The claim that no emission method lets the \<^verbatim>\<open>RequestID\<close> through fails on the leveled
  methods: \<^verbatim>\<open>Info("msg", WithTracing("t1", "s1", "r1"))\<close> emits "r1" in the "tracing" entry,
  while \<^verbatim>\<open>Event\<close> with the same argument emits an empty \<^verbatim>\<open>RequestID\<close>.
\<close>

theorem RequestID_kept_by_Info:
  "payload (Info initVars \<lparr>config = NewProductionConfig, zapInstance = Some 1\<rparr> ''msg''
      [ITraceInfo (WithTracing ''t1'' ''s1'' [''r1''])]) ''tracing''
     = Some (ITraceInfo \<lparr>TraceID = ''t1'', SpanID = ''s1'', RequestID = ''r1''\<rparr>) \<and>
   payload (Event initVars \<lparr>config = NewProductionConfig, zapInstance = Some 1\<rparr> ''msg''
      \<lparr>Entity = ''order'', Action = ActionCreate, Result = ResultSuccess,
       ReferenceID = ''ref-1'', Data = ''''\<rparr>
      [ITraceInfo (WithTracing ''t1'' ''s1'' [''r1''])]) ''tracing''
     = Some (ITraceInfo \<lparr>TraceID = ''t1'', SpanID = ''s1'', RequestID = ''''\<rparr>)"
  by (simp add: payload_def field_def Info_def Event_def appLogBuilder_def WithTracing_def
      zap_String_def zap_Int_def zap_Any_def NewProductionConfig_def Let_def)

section \<open>Configuration and the default instance: properties\<close>

lemma Configure_build_error:
  "build (sinkConfig (LogLevel c)) 1 = Inl err \<Longrightarrow> Configure build s c = (Some err, s, [])"
  by (simp add: Configure_def)

lemma Configure_build_ok:
  "build (sinkConfig (LogLevel c)) 1 = Inr logger \<Longrightarrow>
     Configure build s c = (None, \<lparr>config = c, zapInstance = Some logger\<rparr>, [logger])"
  by (simp add: Configure_def)

text \<open>
  C2. The claim that \<^verbatim>\<open>Configure\<close> syncs the logger it replaces fails: on a
  \<^verbatim>\<open>SukiLogger\<close> that holds logger 1, with a build that returns logger 2, the only
  \<^verbatim>\<open>Sync\<close> is on logger 2, the new one; logger 1 is replaced without a \<^verbatim>\<open>Sync\<close>.
\<close>

theorem Configure_syncs_only_new_logger:
  "Configure (\<lambda>cfg skip. Inr 2) \<lparr>config = NewProductionConfig, zapInstance = Some 1\<rparr>
     (NewProductionConfig\<lparr>AppName := ''shop''\<rparr>)
   = (None,
      \<lparr>config = NewProductionConfig\<lparr>AppName := ''shop''\<rparr>, zapInstance = Some 2\<rparr>,
      [2]) \<and>
   1 \<notin> set (snd (snd (Configure (\<lambda>cfg skip. Inr 2)
        \<lparr>config = NewProductionConfig, zapInstance = Some 1\<rparr>
        (NewProductionConfig\<lparr>AppName := ''shop''\<rparr>))))"
  by (simp add: Configure_def)

text \<open>Called one after the other, \<^verbatim>\<open>L\<close> keeps the instance that the first call stored.\<close>

lemma L_sequential:
  "L build (fst (L build g)) = (fst (L build g), snd (L build g))"
  by (cases g) (simp_all add: L_def Let_def)

text \<open>
  C10. A first call of \<^verbatim>\<open>L\<close> (the package variable is nil) has no error result: it stores a
  \<^verbatim>\<open>SukiLogger\<close> and returns that same one, whether the build of the backend logger
  succeeds or fails; after a failed build the stored logger handle is nil.
\<close>

theorem L_ignores_build_error:
  "(\<exists>s. L build None = (Some s, s)) \<and>
   (\<forall>err. build (sinkConfig 5) 1 = Inl err \<longrightarrow> zapInstance (snd (L build None)) = None) \<and>
   (\<forall>l. build (sinkConfig 5) 1 = Inr l \<longrightarrow> zapInstance (snd (L build None)) = Some l)"
  by (simp add: L_def Let_def)

theorem L_ignores_build_error_witness:
  "(\<lambda>cfg skip. Inl (GoError ''build failed'') :: error + zapLogger) (sinkConfig 5) (1::nat)
     = Inl (GoError ''build failed'') \<and>
   fst (L (\<lambda>cfg skip. Inl (GoError ''build failed'')) None) =
     Some (snd (L (\<lambda>cfg skip. Inl (GoError ''build failed'')) None)) \<and>
   zapInstance (snd (L (\<lambda>cfg skip. Inl (GoError ''build failed'')) None)) = None \<and>
   (\<lambda>cfg skip. if Level cfg = 5 then Inr 7 else Inl (GoError ''level'') :: error + zapLogger)
     (sinkConfig 5) (1::nat) = Inr 7 \<and>
   zapInstance (snd (L (\<lambda>cfg skip. if Level cfg = 5 then Inr 7 else Inl (GoError ''level'')) None))
     = Some 7"
  using L_ignores_build_error [of "\<lambda>cfg skip. Inl (GoError ''build failed'')"]
    L_ignores_build_error [of "\<lambda>cfg skip. if Level cfg = 5 then Inr 7 else Inl (GoError ''level'')"]
  by (auto simp add: sinkConfig_def)

section \<open>Overlapping calls of L: properties\<close>

text \<open>
  The four steps of one goroutine, run alone on a nil variable, do what \<open>L\<close> does: one
  build, and the object stored and returned is the logger that \<open>L\<close> returns.
\<close>

lemma L_run_alone:
  "L_run build [GoA, GoA, GoA, GoA] L_first =
     (\<lparr>sukiLogger = Some 0, objects = [snd (L (build 0) None)], builds = 1\<rparr>,
      Returned (Some 0), AtTest)"
  by (simp add: L_first_def L_def Let_def)

text \<open>
  When the second call starts after the first has returned, both return the one instance
  and the backend logger is built once.
\<close>

lemma L_run_one_after_the_other:
  "L_run build [GoA, GoA, GoA, GoA, GoB, GoB] L_first =
     (\<lparr>sukiLogger = Some 0, objects = [snd (L (build 0) None)], builds = 1\<rparr>,
      Returned (Some 0), Returned (Some 0))"
  by (simp add: L_first_def L_def Let_def)

text \<open>
  C4. The claim that two concurrent first calls of \<^verbatim>\<open>L\<close> return the same instance and build
  the backend logger once fails when both goroutines test the variable before either stores:
  with the schedule test A, test B, then build, store, return of A, then build, store,
  return of B, the backend logger is built twice, A returns the object at address 0 and B
  the object at address 1, and the two objects hold different backend loggers.
\<close>

theorem L_overlapping_first_calls:
  "L_run freshBuild [GoA, GoB, GoA, GoA, GoA, GoB, GoB, GoB] L_first =
     (\<lparr>sukiLogger = Some 1,
       objects =
         [\<lparr>config = \<lparr>LogLevel = 0, AppName = '''', Version = '''', MaxBodySize = 0\<rparr>,
           zapInstance = Some 0\<rparr>,
          \<lparr>config = \<lparr>LogLevel = 0, AppName = '''', Version = '''', MaxBodySize = 0\<rparr>,
           zapInstance = Some 1\<rparr>],
       builds = 2\<rparr>,
      Returned (Some 0), Returned (Some 1))"
  by (simp add: L_first_def freshBuild_def)

end
